theory Spec2Isabelle
  imports Main
begin

section \<open>Data model of lib/goal/Jenkins.ts\<close>

text \<open>
  The goal executor \<open>executeJenkins\<close> is asynchronous, effectful TypeScript. The embedding
  makes every effect explicit:
  \<^item> every call that leaves the function (progress sink, Jenkins client, webhook, sleep) is
    appended, in program order, to a trace of \<open>event\<close>s;
  \<^item> the answers of the outside world (the Jenkins server, the webhook endpoint, the
    callbacks of the registration) are parameters of the model;
  \<^item> a rejected promise or a thrown exception is the outcome \<open>Threw\<close>;
  \<^item> the two unbounded waits (the queue poll loop and the wait for the end of the log
    stream) give the outcome \<open>Pending\<close> when they do not finish;
  \<^item> the one mutation of the goal event is returned as the updated goal event.
\<close>

datatype error =
    ServerConfigIncomplete  \<comment> \<open>the \<open>Error\<close> thrown when no server url is configured\<close>
  | InvalidUrl              \<comment> \<open>the \<open>TypeError\<close> of \<open>new URL(...)\<close>\<close>
  | Rejected string         \<comment> \<open>a rejection of a callback or of a remote call\<close>

datatype 'a outcome = Returned 'a | Threw error | Pending

text \<open>The \<open>server\<close> object of a registration and of the configuration at \<open>sdm.jenkins\<close>;
  \<open>None\<close> is an absent (\<open>undefined\<close>) field.\<close>

record server_config =
  server_url :: "string option"
  server_user :: "string option"
  server_password :: "string option"

text \<open>The fields of \<open>SdmGoalEvent\<close> that the executor reads or writes.\<close>

record goal_event =
  repo_owner :: string
  repo_name :: string
  sha :: string
  branch :: string
  description :: string

text \<open>The fields of \<open>GoalInvocation\<close> that the executor reads: \<open>goalEvent\<close>,
  \<open>context.workspaceId\<close> and the value of \<open>_.get(configuration, "sdm.jenkins")\<close>.
  The progress log is the \<open>ProgressWrite\<close> events of the trace.\<close>

record goal_invocation =
  goalEvent :: goal_event
  workspaceId :: string
  sdm_jenkins :: "server_config option"

text \<open>A registration field of type \<open>T | ((gi: GoalInvocation) => Promise<T>)\<close>.\<close>

datatype 'a resolver = Static 'a | Computed "goal_invocation \<Rightarrow> error + 'a"

type_synonym parameters = "(string \<times> string) list"

record registration =
  job :: "string resolver option"
  convergeOnly :: "bool option"
  parameters :: "parameters resolver option"
  job_definition :: "string resolver option"
  server :: "server_config option"

text \<open>What \<open>js.job.build\<close> resolves to: the queue id parsed from the response, which the
  client delivers as a number, as \<open>NaN\<close>, or not at all.\<close>

datatype queue_ack = AckNumber int | AckNaN | AckUndefined

fun isNaN :: "queue_ack \<Rightarrow> bool" where
  "isNaN (AckNumber n) = False"
| "isNaN AckNaN = True"
| "isNaN AckUndefined = True"

text \<open>A queue item as \<open>js.queue.item\<close> delivers it. \<open>executable.number\<close> is the JSON
  number of the Jenkins queue API; \<open>None\<close> is an absent field.\<close>

record executable =
  exe_number :: "int option"
  exe_url :: string

record queue_item =
  item_executable :: "executable option"

text \<open>The object \<open>{ id, url }\<close> that \<open>triggerJob\<close> returns.\<close>

record build_ref =
  build_id :: int
  build_ref_url :: string

datatype log_event = LogData string | LogError string

text \<open>A log stream: the \<open>data\<close> and \<open>error\<close> events it delivers, in order, and whether
  it then signals \<open>end\<close>.\<close>

record log_stream =
  log_events :: "log_event list"
  log_ends :: bool

text \<open>The record \<open>js.build.get\<close> resolves to; \<open>None\<close> is a \<open>null\<close> result.\<close>

record build_result =
  result_code :: "string option"
  result_url :: string

text \<open>The Jenkins client \<open>js\<close>: the answer of the server to each call. The \<open>k\<close>-th poll
  of the queue (counted from 0) is answered by \<open>queue_item js build k\<close>.\<close>

record jenkins =
  job_exists :: "string \<Rightarrow> error + bool"
  job_config :: "string \<Rightarrow> string \<Rightarrow> error + unit"
  job_create :: "string \<Rightarrow> string \<Rightarrow> error + unit"
  job_build :: "string \<Rightarrow> parameters option \<Rightarrow> error + queue_ack"
  queue_item :: "queue_ack \<Rightarrow> nat \<Rightarrow> error + queue_item option"
  build_logStream :: "string \<Rightarrow> int \<Rightarrow> log_stream"
  build_get :: "string \<Rightarrow> int \<Rightarrow> error + build_result"

text \<open>The \<open>data\<close> object of \<open>updateBuildStatus\<close>. The two timestamps are
  \<open>new Date().toISOString()\<close>; the model keeps only whether each is populated.\<close>

datatype timestamp = CallTime

record build_data =
  data_owner_name :: string
  data_name :: string
  data_build_name :: string
  data_number :: int
  data_type :: string
  data_build_url :: string
  data_status :: "string option"
  data_commit :: string
  data_branch :: string
  data_provider :: string
  started_at :: "timestamp option"
  finished_at :: "timestamp option"

text \<open>The connection data of the client: the url, and the strings that the assignments
  to \<open>url.username\<close> and \<open>url.password\<close> store on it. The setters of a \<open>URL\<close> turn
  their argument into a string, so an absent user or password is stored as the text
  \<open>undefined\<close>.\<close>

record connection =
  conn_url :: string
  conn_username :: string
  conn_password :: string

text \<open>An argument of \<open>progressLog.write\<close>.\<close>

datatype jsval = JUndefined | JString string | JNumber int | JRecord parameters

datatype event =
    ProgressWrite string "jsval list"
  | NewClient connection
  | JobExists string
  | JobConfig string string
  | JobCreate string string
  | JobBuild string "parameters option"
  | QueueItem queue_ack
  | Sleep nat
  | LogStream string int
  | BuildGet string int
  | PostWebhook string build_data string

section \<open>Sequencing of effects\<close>

text \<open>A computation yields the events it emitted and its outcome. \<open>and_then\<close> is the
  sequencing of \<open>await\<close>: the second computation runs only when the first returned.\<close>

type_synonym 'a io = "event list \<times> 'a outcome"

definition ret :: "'a \<Rightarrow> 'a io" where
  "ret x = ([], Returned x)"

definition and_then :: "'a io \<Rightarrow> ('a \<Rightarrow> 'b io) \<Rightarrow> 'b io" where
  "and_then m f =
     (case m of
        (tr, Returned x) \<Rightarrow> (let (tr', r) = f x in (tr @ tr', r))
      | (tr, Threw e) \<Rightarrow> (tr, Threw e)
      | (tr, Pending) \<Rightarrow> (tr, Pending))"

text \<open>Awaiting a promise that needs no call of the model's world (a callback of the
  registration).\<close>

definition await :: "error + 'a \<Rightarrow> 'a io" where
  "await p = ([], case p of Inl e \<Rightarrow> Threw e | Inr x \<Rightarrow> Returned x)"

text \<open>A call to a collaborator: the call is emitted, then its answer awaited.\<close>

definition call :: "event \<Rightarrow> error + 'a \<Rightarrow> 'a io" where
  "call ev answer = ([ev], case answer of Inl e \<Rightarrow> Threw e | Inr x \<Rightarrow> Returned x)"

definition progressLog_write :: "string \<Rightarrow> jsval list \<Rightarrow> unit io" where
  "progressLog_write msg args = ([ProgressWrite msg args], Returned ())"

section \<open>triggerJob\<close>

text \<open>The condition of the \<open>do ... while\<close> loop:
  \<open>!item || !item.executable || !item.executable.number\<close>. A number is falsy when it is
  absent or 0.\<close>

definition keep_polling :: "queue_item option \<Rightarrow> bool" where
  "keep_polling item =
     (case item of
        None \<Rightarrow> True
      | Some it \<Rightarrow>
          (case item_executable it of
             None \<Rightarrow> True
           | Some ex \<Rightarrow> (case exe_number ex of None \<Rightarrow> True | Some n \<Rightarrow> n = 0)))"

text \<open>\<open>{ id: item.executable.number, url: item.executable.url }\<close>, for an item on which
  the loop stops.\<close>

definition running_build :: "queue_item option \<Rightarrow> build_ref option" where
  "running_build item =
     (case item of
        None \<Rightarrow> None
      | Some it \<Rightarrow>
          (case item_executable it of
             None \<Rightarrow> None
           | Some ex \<Rightarrow>
               (case exe_number ex of
                  None \<Rightarrow> None
                | Some n \<Rightarrow> Some \<lparr>build_id = n, build_ref_url = exe_url ex\<rparr>)))"

text \<open>The poll loop. \<open>fuel\<close> bounds the number of polls the model follows; the loop of
  the source has no bound, and the outcome is \<open>Pending\<close> when the fuel is used up.
  \<open>k\<close> counts the polls already made.\<close>

fun poll_queue :: "jenkins \<Rightarrow> queue_ack \<Rightarrow> nat \<Rightarrow> nat \<Rightarrow> event list \<times> build_ref option outcome" where
  "poll_queue js build 0 k = ([], Pending)"
| "poll_queue js build (Suc fuel) k =
     (case queue_item js build k of
        Inl e \<Rightarrow> ([QueueItem build], Threw e)
      | Inr item \<Rightarrow>
          if keep_polling item
          then (let (tr, r) = poll_queue js build fuel (Suc k)
                in (QueueItem build # Sleep 500 # tr, r))
          else ([QueueItem build, Sleep 500], Returned (running_build item)))"

definition triggerJob ::
  "nat \<Rightarrow> jenkins \<Rightarrow> string \<Rightarrow> parameters option \<Rightarrow> build_ref option io" where
  "triggerJob fuel js jobName ps =
     and_then (call (JobBuild jobName ps) (job_build js jobName ps)) (\<lambda>build.
       if isNaN build then ret None
       else poll_queue js build fuel 0)"

section \<open>Server configuration and job resolution\<close>

text \<open>\<open>_.merge(object, source)\<close> of lodash, on objects whose fields are strings: a source
  that is \<open>undefined\<close> is skipped; a field that is \<open>undefined\<close> in the source is skipped;
  every other field of the source is assigned to the object.\<close>

definition merge :: "server_config \<Rightarrow> server_config option \<Rightarrow> server_config" where
  "merge object source =
     (case source of
        None \<Rightarrow> object
      | Some src \<Rightarrow>
          \<lparr>server_url = (case server_url src of None \<Rightarrow> server_url object | Some v \<Rightarrow> Some v),
           server_user = (case server_user src of None \<Rightarrow> server_user object | Some v \<Rightarrow> Some v),
           server_password =
             (case server_password src of None \<Rightarrow> server_password object | Some v \<Rightarrow> Some v)\<rparr>)"

text \<open>\<open>_.merge({}, registration.server, _.get(configuration, "sdm.jenkins"))\<close>: the sources
  are applied from left to right.\<close>

definition merged_server :: "registration \<Rightarrow> goal_invocation \<Rightarrow> server_config" where
  "merged_server registration gi =
     merge (merge \<lparr>server_url = None, server_user = None, server_password = None\<rparr>
              (server registration))
           (sdm_jenkins gi)"

text \<open>\<open>codeLine\<close> of the slack-messages library: an empty text renders as the empty
  string, every other text is wrapped in backticks.\<close>

definition codeLine :: "string \<Rightarrow> string" where
  "codeLine text = (if text = [] then [] else ''`'' @ text @ ''`'')"

text \<open>\<open>!!registration.job\<close> is false for an absent field and for the empty string.\<close>

definition getJobName :: "registration \<Rightarrow> goal_invocation \<Rightarrow> error + string" where
  "getJobName registration gi =
     (case job registration of
        Some (Static s) \<Rightarrow> if s \<noteq> [] then Inr s else Inr (repo_name (goalEvent gi))
      | Some (Computed f) \<Rightarrow> f gi
      | None \<Rightarrow> Inr (repo_name (goalEvent gi)))"

text \<open>\<open>None\<close> is the \<open>undefined\<close> that is returned when the registration has no
  parameters.\<close>

definition getParameters :: "registration \<Rightarrow> goal_invocation \<Rightarrow> error + parameters option" where
  "getParameters registration gi =
     (case parameters registration of
        Some (Computed f) \<Rightarrow> (case f gi of Inl e \<Rightarrow> Inl e | Inr ps \<Rightarrow> Inr (Some ps))
      | Some (Static ps) \<Rightarrow> Inr (Some ps)
      | None \<Rightarrow> Inr None)"

section \<open>createOrUpdateJob\<close>

text \<open>The two marker lines of a block of the progress log. The closing marker is a
  backslash and two dashes.\<close>

definition block_open :: string where
  "block_open = ''/--''"

definition block_close :: string where
  "block_close = CHR 0x5C # ''--''"

text \<open>\<open>!!registration.definition\<close>: a function is truthy, a string unless it is empty.\<close>

definition definition_provided :: "registration \<Rightarrow> bool" where
  "definition_provided registration =
     (case job_definition registration of
        None \<Rightarrow> False
      | Some (Static s) \<Rightarrow> s \<noteq> []
      | Some (Computed f) \<Rightarrow> True)"

definition resolve_definition :: "registration \<Rightarrow> goal_invocation \<Rightarrow> error + string" where
  "resolve_definition registration gi =
     (case job_definition registration of
        Some (Static s) \<Rightarrow> Inr s
      | Some (Computed f) \<Rightarrow> f gi
      | None \<Rightarrow> Inr [])"

definition createOrUpdateJob ::
  "string \<Rightarrow> registration \<Rightarrow> goal_invocation \<Rightarrow> jenkins \<Rightarrow> unit io" where
  "createOrUpdateJob jobName registration gi js =
     (if definition_provided registration then
        and_then (await (resolve_definition registration gi)) (\<lambda>definition.
        and_then (call (JobExists jobName) (job_exists js jobName)) (\<lambda>exists.
        and_then (if exists
                  then call (JobConfig jobName definition) (job_config js jobName definition)
                  else call (JobCreate jobName definition) (job_create js jobName definition)) (\<lambda>_.
        and_then (progressLog_write block_open []) (\<lambda>_.
        and_then (progressLog_write (''Updating definition of Jenkins job '%s'' @ [CHR 0x27])
                    [JString jobName]) (\<lambda>_.
        progressLog_write block_close [])))))
      else
        and_then (progressLog_write block_open []) (\<lambda>_.
        and_then (progressLog_write ''Not updating definition of Jenkins job '%s' as no definition was provided.''
                    [JString jobName]) (\<lambda>_.
        progressLog_write block_close [])))"

section \<open>updateBuildStatus\<close>

text \<open>What the executor needs from its host: whether \<open>new URL(s)\<close> accepts a string, the
  Jenkins client that \<open>require("jenkins")\<close> builds for a connection, the answer of
  \<open>postWebhook\<close>, and \<open>serializeResult\<close>.\<close>

record platform =
  valid_url :: "string \<Rightarrow> bool"
  jenkins_client :: "connection \<Rightarrow> jenkins"
  postWebhook :: "string \<Rightarrow> build_data \<Rightarrow> string \<Rightarrow> error + unit"
  serializeResult :: "string \<Rightarrow> string"

text \<open>The decimal digits of a build number, for the template \<open>Build #${buildNo}\<close>.\<close>

function show_nat :: "nat \<Rightarrow> string" where
  "show_nat n =
     (if n < 10 then [''0123456789'' ! n]
      else show_nat (n div 10) @ [''0123456789'' ! (n mod 10)])"
  by pat_completeness auto
termination
  by (relation "measure id") auto

declare show_nat.simps [simp del]

definition show_int :: "int \<Rightarrow> string" where
  "show_int i = (if i < 0 then CHR ''-'' # show_nat (nat (- i)) else show_nat (nat i))"

text \<open>The object \<open>data\<close>; \<open>status\<close> is \<open>None\<close> when the caller passes \<open>undefined\<close>.\<close>

definition status_data :: "string option \<Rightarrow> goal_event \<Rightarrow> string \<Rightarrow> int \<Rightarrow> build_data" where
  "status_data status sdmGoal url buildNo =
     \<lparr>data_owner_name = repo_owner sdmGoal,
      data_name = repo_name sdmGoal,
      data_build_name = ''Build #'' @ show_int buildNo,
      data_number = buildNo,
      data_type = ''push'',
      data_build_url = url,
      data_status = status,
      data_commit = sha sdmGoal,
      data_branch = branch sdmGoal,
      data_provider = ''jenkins'',
      started_at = (if status = Some ''started'' then Some CallTime else None),
      finished_at = (if status \<noteq> Some ''started'' then Some CallTime else None)\<rparr>"

definition updateBuildStatus ::
  "platform \<Rightarrow> string option \<Rightarrow> goal_event \<Rightarrow> string \<Rightarrow> int \<Rightarrow> string \<Rightarrow> unit io" where
  "updateBuildStatus pf status sdmGoal url buildNo team =
     (let data = status_data status sdmGoal url buildNo
      in call (PostWebhook ''build'' data team) (postWebhook pf ''build'' data team))"

section \<open>executeJenkins\<close>

text \<open>The members of \<open>SdmGoalState\<close> that the executor uses, and their string values.\<close>

datatype SdmGoalState = success | stopped | failure

fun state_value :: "SdmGoalState \<Rightarrow> string" where
  "state_value success = ''success''"
| "state_value stopped = ''stopped''"
| "state_value failure = ''failure''"

record execute_result =
  result_state :: "SdmGoalState option"
  result_description :: string
  externalUrls :: "(string \<times> string) list option"

text \<open>The \<open>switch\<close> on \<open>result.result\<close>: \<open>status\<close> and \<open>state\<close> stay \<open>undefined\<close>
  when no case matches.\<close>

definition mapOutcome :: "string option \<Rightarrow> string option \<times> SdmGoalState option" where
  "mapOutcome result =
     (if result = Some ''SUCCESS'' then (Some ''passed'', Some success)
      else if result = Some ''ABORTED'' then (Some ''canceled'', Some stopped)
      else if result = Some ''FAILURE'' then (Some ''failed'', Some failure)
      else (None, None))"

text \<open>A value that may be \<open>undefined\<close>, turned into a string (inside a template string,
  or assigned to a string property), and as an argument of \<open>progressLog.write\<close>.\<close>

definition template :: "string option \<Rightarrow> string" where
  "template v = (case v of None \<Rightarrow> ''undefined'' | Some s \<Rightarrow> s)"

definition state_arg :: "SdmGoalState option \<Rightarrow> jsval" where
  "state_arg st = (case st of None \<Rightarrow> JUndefined | Some s \<Rightarrow> JString (state_value s))"

text \<open>The three listeners on the log stream and the wait for \<open>deferred.promise\<close>: every
  event is written to the progress log; the wait ends only on \<open>end\<close>.\<close>

definition await_log_end :: "platform \<Rightarrow> log_stream \<Rightarrow> unit io" where
  "await_log_end pf log =
     (map (\<lambda>ev. case ev of
                  LogData text \<Rightarrow> ProgressWrite text []
                | LogError err \<Rightarrow> ProgressWrite (serializeResult pf err) [])
          (log_events log),
      if log_ends log then Returned () else Pending)"

text \<open>The body of \<open>if (!!item)\<close>: the build is announced and reported as started, its
  log is streamed to the end, its result is fetched, mapped, announced and reported.\<close>

definition observeBuild ::
  "platform \<Rightarrow> jenkins \<Rightarrow> string \<Rightarrow> goal_event \<Rightarrow> string \<Rightarrow> build_ref \<Rightarrow> execute_result io" where
  "observeBuild pf js jobName sdmGoal team item =
     and_then (progressLog_write block_open []) (\<lambda>_.
     and_then (progressLog_write (''Jenkins job '%s' started with build id '%s'' @ [CHR 0x27])
                 [JString jobName,
                  if build_id item \<noteq> 0 then JNumber (build_id item) else JString ''<unkown>'']) (\<lambda>_.
     and_then (progressLog_write block_close []) (\<lambda>_.
     and_then (updateBuildStatus pf (Some ''started'') sdmGoal (build_ref_url item) (build_id item)
                 team) (\<lambda>_.
     and_then (call (LogStream jobName (build_id item))
                 (Inr (build_logStream js jobName (build_id item)))) (\<lambda>log.
     and_then (await_log_end pf log) (\<lambda>_.
     and_then (call (BuildGet jobName (build_id item)) (build_get js jobName (build_id item))) (\<lambda>result.
     let (status, state) = mapOutcome (result_code result) in
     and_then (progressLog_write block_open []) (\<lambda>_.
     and_then (progressLog_write ''Jenkins job '%s' completed with %s''
                 [JString jobName, state_arg state]) (\<lambda>_.
     and_then (progressLog_write block_close []) (\<lambda>_.
     and_then (updateBuildStatus pf status sdmGoal (build_ref_url item) (build_id item) team) (\<lambda>_.
     ret \<lparr>result_state = state,
          result_description = ''Jenkins '' @ codeLine jobName @ '' '' @ template status,
          externalUrls = Some [(''Log'', result_url result)]\<rparr>)))))))))))"

text \<open>The head of the executor: the server configuration is merged and checked, the
  client is built, the job name and the parameters are resolved.\<close>

definition resolve_invocation ::
  "platform \<Rightarrow> registration \<Rightarrow> goal_invocation \<Rightarrow> (jenkins \<times> string \<times> parameters option) io" where
  "resolve_invocation pf registration gi =
     (let server = merged_server registration gi in
      case server_url server of
        None \<Rightarrow> ([], Threw ServerConfigIncomplete)
      | Some u \<Rightarrow>
          if u = [] then ([], Threw ServerConfigIncomplete)
          else if \<not> valid_url pf u then ([], Threw InvalidUrl)
          else
            (let conn = \<lparr>conn_url = u, conn_username = template (server_user server),
                         conn_password = template (server_password server)\<rparr>
             in and_then (call (NewClient conn) (Inr (jenkins_client pf conn))) (\<lambda>js.
                and_then (await (getJobName registration gi)) (\<lambda>jobName.
                and_then (await (getParameters registration gi)) (\<lambda>ps.
                ret (js, jobName, ps))))))"

text \<open>Everything after the resolution, on the invocation whose goal event already carries
  the new description.\<close>

definition converge_and_start ::
  "nat \<Rightarrow> platform \<Rightarrow> registration \<Rightarrow> goal_invocation \<Rightarrow> jenkins \<Rightarrow> string \<Rightarrow> parameters option
     \<Rightarrow> execute_result io" where
  "converge_and_start fuel pf registration gi js jobName ps =
     and_then (createOrUpdateJob jobName registration gi js) (\<lambda>_.
     if convergeOnly registration \<noteq> Some True then
       and_then (progressLog_write block_open []) (\<lambda>_.
       and_then (progressLog_write (''Starting Jenkins job '%s' with parameters '%j'' @ [CHR 0x27])
                   [JString jobName, JRecord (case ps of None \<Rightarrow> [] | Some p \<Rightarrow> p)]) (\<lambda>_.
       and_then (progressLog_write block_close []) (\<lambda>_.
       and_then (triggerJob fuel js jobName ps) (\<lambda>item.
       case item of
         Some it \<Rightarrow> observeBuild pf js jobName (goalEvent gi) (workspaceId gi) it
       | None \<Rightarrow>
           ret \<lparr>result_state = Some success,
                result_description = ''Jenkins '' @ codeLine jobName @ '' triggered'',
                externalUrls = None\<rparr>))))
     else
       and_then (progressLog_write block_open []) (\<lambda>_.
       and_then (progressLog_write (''Not starting Jenkins job '%s'' @ [CHR 0x27])
                   [JString jobName]) (\<lambda>_.
       and_then (progressLog_write block_close []) (\<lambda>_.
       ret \<lparr>result_state = Some success,
            result_description = ''Jenkins '' @ codeLine jobName @ '' converged'',
            externalUrls = None\<rparr>))))"

text \<open>The assignment \<open>goalEvent.description = `Jenkins ${codeLine(jobName)}`\<close>, on the
  goal event of the invocation.\<close>

definition set_description :: "string \<Rightarrow> goal_invocation \<Rightarrow> goal_invocation" where
  "set_description jobName gi =
     gi\<lparr>goalEvent := (goalEvent gi)\<lparr>description := ''Jenkins '' @ codeLine jobName\<rparr>\<rparr>"

text \<open>The executor returns its trace, the invocation as it leaves it, and its outcome. The
  fuel bounds the queue polls followed (see \<open>poll_queue\<close>).\<close>

definition executeJenkins ::
  "nat \<Rightarrow> platform \<Rightarrow> registration \<Rightarrow> goal_invocation
     \<Rightarrow> event list \<times> goal_invocation \<times> execute_result outcome" where
  "executeJenkins fuel pf registration gi =
     (case resolve_invocation pf registration gi of
        (tr, Threw e) \<Rightarrow> (tr, gi, Threw e)
      | (tr, Pending) \<Rightarrow> (tr, gi, Pending)
      | (tr, Returned (js, jobName, ps)) \<Rightarrow>
          (let gi' = set_description jobName gi;
               (tr', r) = converge_and_start fuel pf registration gi' js jobName ps
           in (tr @ tr', gi', r)))"

section \<open>Observations on a trace\<close>

fun is_remote_call :: "event \<Rightarrow> bool" where
  "is_remote_call (ProgressWrite msg args) = False"
| "is_remote_call (NewClient conn) = False"
| "is_remote_call (Sleep ms) = False"
| "is_remote_call e = True"

fun is_trigger :: "event \<Rightarrow> bool" where
  "is_trigger (JobBuild jobName ps) = True"
| "is_trigger e = False"

fun is_queue_poll :: "event \<Rightarrow> bool" where
  "is_queue_poll (QueueItem build) = True"
| "is_queue_poll e = False"

text \<open>The calls that only an observed build causes: the log stream, the fetch of the
  result and the status reports.\<close>

fun is_observation :: "event \<Rightarrow> bool" where
  "is_observation (LogStream jobName n) = True"
| "is_observation (BuildGet jobName n) = True"
| "is_observation (PostWebhook hook d team) = True"
| "is_observation e = False"

text \<open>The status reports of a trace, in order.\<close>

fun reports :: "event list \<Rightarrow> build_data list" where
  "reports [] = []"
| "reports (PostWebhook hook d team # tr) = d # reports tr"
| "reports (e # tr) = reports tr"

definition terminal_status :: "string option \<Rightarrow> bool" where
  "terminal_status s =
     (s = Some ''passed'' \<or> s = Some ''failed'' \<or> s = Some ''canceled'' \<or> s = Some ''error'')"

text \<open>The block that announces the start of the job.\<close>

definition starting_block :: "string \<Rightarrow> parameters option \<Rightarrow> event list" where
  "starting_block jobName ps =
     [ProgressWrite block_open [],
      ProgressWrite (''Starting Jenkins job '%s' with parameters '%j'' @ [CHR 0x27])
        [JString jobName, JRecord (case ps of None \<Rightarrow> [] | Some p \<Rightarrow> p)],
      ProgressWrite block_close []]"

text \<open>The status reports that one execution can make: none, the report of the start of a
  build, or that report followed by one more report for the same build.\<close>

definition report_shape :: "build_data list \<Rightarrow> bool" where
  "report_shape ds =
     (ds = [] \<or>
      (\<exists>sdmGoal url n. ds = [status_data (Some ''started'') sdmGoal url n]) \<or>
      (\<exists>sdmGoal url n st.
          ds = [status_data (Some ''started'') sdmGoal url n, status_data st sdmGoal url n]))"

section \<open>The progress sink and JenkinsProgressTests\<close>

text \<open>The line that the progress log makes of a message and its arguments, as
  \<open>util.format\<close> does for the placeholders \<open>%s\<close> and \<open>%j\<close>; the executor passes exactly
  one argument for each placeholder.\<close>

definition hex_digit :: "nat \<Rightarrow> char" where
  "hex_digit n = ''0123456789abcdef'' ! n"

definition json_char :: "char \<Rightarrow> string" where
  "json_char c =
     (if c = CHR 0x22 then [CHR 0x5C, CHR 0x22]
      else if c = CHR 0x5C then [CHR 0x5C, CHR 0x5C]
      else if c = CHR 0x08 then [CHR 0x5C, CHR ''b'']
      else if c = CHR 0x0C then [CHR 0x5C, CHR ''f'']
      else if c = CHR 0x0A then [CHR 0x5C, CHR ''n'']
      else if c = CHR 0x0D then [CHR 0x5C, CHR ''r'']
      else if c = CHR 0x09 then [CHR 0x5C, CHR ''t'']
      else if (of_char c :: nat) < 32
        then CHR 0x5C # ''u00'' @ [hex_digit (of_char c div 16), hex_digit (of_char c mod 16)]
      else [c])"

definition json_string :: "string \<Rightarrow> string" where
  "json_string s = CHR 0x22 # concat (map json_char s) @ [CHR 0x22]"

fun json_members :: "parameters \<Rightarrow> string" where
  "json_members [] = []"
| "json_members [(k, v)] = json_string k @ '':'' @ json_string v"
| "json_members ((k, v) # m # ms) = json_string k @ '':'' @ json_string v @ '','' @ json_members (m # ms)"

fun to_string :: "jsval \<Rightarrow> string" where
  "to_string JUndefined = ''undefined''"
| "to_string (JString s) = s"
| "to_string (JNumber n) = show_int n"
| "to_string (JRecord ps) = ''[object Object]''"

fun to_json :: "jsval \<Rightarrow> string" where
  "to_json JUndefined = ''undefined''"
| "to_json (JString s) = json_string s"
| "to_json (JNumber n) = show_int n"
| "to_json (JRecord ps) = ''{'' @ json_members ps @ ''}''"

fun format :: "string \<Rightarrow> jsval list \<Rightarrow> string" where
  "format [] args = []"
| "format [c] args = [c]"
| "format (c # d # msg) [] = c # d # msg"
| "format (c # d # msg) (a # args) =
     (if c = CHR ''%'' \<and> d = CHR ''s'' then to_string a @ format msg args
      else if c = CHR ''%'' \<and> d = CHR ''j'' then to_json a @ format msg args
      else c # format (d # msg) (a # args))"

text \<open>The regular expressions of \<open>JenkinsProgressTests\<close>, all with the flag \<open>i\<close>: literal
  characters, \<open>.*\<close> (with or without a capturing group around it), an optional group and
  concatenation.\<close>

datatype regexp = Lit char | DotStar | Optional regexp | Group "regexp list"

definition lits :: "string \<Rightarrow> regexp list" where
  "lits s = map Lit s"

definition lower_case :: "char \<Rightarrow> char" where
  "lower_case c =
     (case map_of (zip ''ABCDEFGHIJKLMNOPQRSTUVWXYZ'' ''abcdefghijklmnopqrstuvwxyz'') c of
        None \<Rightarrow> c
      | Some l \<Rightarrow> l)"

text \<open>\<open>match_here rs s\<close>: the sequence \<open>rs\<close> matches a prefix of \<open>s\<close>. The dot matches
  every character but a line terminator.\<close>

function match_here :: "regexp list \<Rightarrow> string \<Rightarrow> bool" where
  "match_here [] s = True"
| "match_here (Lit c # rs) [] = False"
| "match_here (Lit c # rs) (x # s) = (lower_case c = lower_case x \<and> match_here rs s)"
| "match_here (DotStar # rs) [] = match_here rs []"
| "match_here (DotStar # rs) (x # s) =
     (match_here rs (x # s) \<or> (x \<noteq> CHR 0x0A \<and> x \<noteq> CHR 0x0D \<and> match_here (DotStar # rs) s))"
| "match_here (Optional r # rs) s = (match_here (r # rs) s \<or> match_here rs s)"
| "match_here (Group gs # rs) s = match_here (gs @ rs) s"
  by pat_completeness auto
termination
  by (relation "measure (\<lambda>(rs, s). size_list size rs + length s)") auto

text \<open>\<open>RegExp.prototype.test\<close>: the expression matches at some position of the line.\<close>

fun regexp_test :: "regexp list \<Rightarrow> string \<Rightarrow> bool" where
  "regexp_test rs [] = match_here rs []"
| "regexp_test rs (x # s) = (match_here rs (x # s) \<or> regexp_test rs s)"

record progress_test =
  test :: "regexp list"
  phase :: string

definition JenkinsProgressTests :: "progress_test list" where
  "JenkinsProgressTests =
     [\<lparr>test = lits ''Starting Jenkins job'', phase = ''queued''\<rparr>,
      \<lparr>test = lits ''Jenkins job '' @ [Lit (CHR 0x27), DotStar, Lit (CHR 0x27)] @ lits '' started'',
       phase = ''started''\<rparr>,
      \<lparr>test = lits ''[Pipeline] { ('' @ [Optional (Group (lits ''Declarative: '')), Group [DotStar]]
                @ lits '')'',
       phase = ''$1''\<rparr>,
      \<lparr>test = lits ''Jenkins job '%s' complated with'', phase = ''completed''\<rparr>]"

text \<open>The tests registered for a phase.\<close>

definition tests_of_phase :: "string \<Rightarrow> regexp list list" where
  "tests_of_phase p = map test (filter (\<lambda>t. phase t = p) JenkinsProgressTests)"

text \<open>The lines that the progress log receives, in order.\<close>

fun progress_lines :: "event list \<Rightarrow> string list" where
  "progress_lines [] = []"
| "progress_lines (ProgressWrite msg args # tr) = format msg args # progress_lines tr"
| "progress_lines (e # tr) = progress_lines tr"

section \<open>A complete run\<close>

text \<open>The run on which the closed theorems below are evaluated: repository \<open>app\<close>, no job
  name and no definition in the registration; the trigger is acknowledged with queue id
  42; the first two polls of the queue carry no executable, the third carries build 7; the
  log stream delivers two chunks and ends; the build reports \<open>SUCCESS\<close>.\<close>

definition run_jenkins :: jenkins where
  "run_jenkins =
     \<lparr>job_exists = (\<lambda>jobName. Inr False),
      job_config = (\<lambda>jobName d. Inr ()),
      job_create = (\<lambda>jobName d. Inr ()),
      job_build = (\<lambda>jobName ps. Inr (AckNumber 42)),
      queue_item = (\<lambda>build k.
         if k < 2 then Inr (Some \<lparr>item_executable = None\<rparr>)
         else Inr (Some \<lparr>item_executable =
                 Some \<lparr>exe_number = Some 7, exe_url = ''http://ci/job/app/7/''\<rparr>\<rparr>)),
      build_logStream = (\<lambda>jobName n. \<lparr>log_events = [LogData ''one'', LogData ''two''], log_ends = True\<rparr>),
      build_get = (\<lambda>jobName n. Inr \<lparr>result_code = Some ''SUCCESS'', result_url = ''http://ci/job/app/7/''\<rparr>)\<rparr>"

definition run_platform :: platform where
  "run_platform =
     \<lparr>valid_url = (\<lambda>u. True),
      jenkins_client = (\<lambda>conn. run_jenkins),
      postWebhook = (\<lambda>hook d team. Inr ()),
      serializeResult = (\<lambda>err. err)\<rparr>"

definition run_registration :: registration where
  "run_registration =
     \<lparr>job = None, convergeOnly = None, parameters = None, job_definition = None, server = None\<rparr>"

definition run_invocation :: goal_invocation where
  "run_invocation =
     \<lparr>goalEvent = \<lparr>repo_owner = ''atomist'', repo_name = ''app'', sha = ''0a1b2c'',
                    branch = ''master'', description = ''Planned''\<rparr>,
      workspaceId = ''T29E48P34'',
      sdm_jenkins = Some \<lparr>server_url = Some ''http://ci'', server_user = Some ''admin'',
                           server_password = Some ''123456''\<rparr>\<rparr>"


text \<open>The same run against a server that declines the trigger: the acknowledgment is
  \<open>NaN\<close>.\<close>

definition declined_platform :: platform where
  "declined_platform =
     run_platform\<lparr>jenkins_client := (\<lambda>conn. run_jenkins\<lparr>job_build := (\<lambda>jobName ps. Inr AckNaN)\<rparr>)\<rparr>"

text \<open>The same run when the build ends with a result code that the executor does not
  know.\<close>

definition unstable_jenkins :: jenkins where
  "unstable_jenkins =
     run_jenkins\<lparr>build_get := (\<lambda>jobName n.
        Inr \<lparr>result_code = Some ''UNSTABLE'', result_url = ''http://ci/job/app/7/''\<rparr>)\<rparr>"

definition unstable_platform :: platform where
  "unstable_platform = run_platform\<lparr>jenkins_client := (\<lambda>conn. unstable_jenkins)\<rparr>"

text \<open>A registration with a static job definition, and a server on which the job
  exists already.\<close>

definition defined_registration :: registration where
  "defined_registration = run_registration\<lparr>job_definition := Some (Static ''<project/>'')\<rparr>"

definition existing_jenkins :: jenkins where
  "existing_jenkins = run_jenkins\<lparr>job_exists := (\<lambda>jobName. Inr True)\<rparr>"

text \<open>The registration of the complete run, with a server of its own.\<close>

definition registered_registration :: registration where
  "registered_registration =
     run_registration\<lparr>server := Some \<lparr>server_url = Some ''http://registered'',
                                        server_user = Some ''deployer'',
                                        server_password = Some ''hunter2''\<rparr>\<rparr>"




definition empty_job_registration :: registration where
  "empty_job_registration = run_registration\<lparr>job := Some (Computed (\<lambda>gi. Inr []))\<rparr>"

section \<open>Sequencing lemmas\<close>

lemmas io_defs = and_then_def call_def await_def ret_def progressLog_write_def

lemmas run_defs = run_jenkins_def run_platform_def run_registration_def run_invocation_def

lemmas exec_defs = executeJenkins_def resolve_invocation_def merged_server_def merge_def template_def
  getJobName_def getParameters_def set_description_def converge_and_start_def
  createOrUpdateJob_def definition_provided_def resolve_definition_def triggerJob_def
  observeBuild_def updateBuildStatus_def status_data_def await_log_end_def mapOutcome_def
  keep_polling_def running_build_def

lemma fst_and_then:
  "fst (and_then m f) =
     (case snd m of Returned x \<Rightarrow> fst m @ fst (f x) | Threw e \<Rightarrow> fst m | Pending \<Rightarrow> fst m)"
  by (cases m) (auto simp: and_then_def split: outcome.splits prod.splits)

lemma snd_and_then:
  "snd (and_then m f) =
     (case snd m of Returned x \<Rightarrow> snd (f x) | Threw e \<Rightarrow> Threw e | Pending \<Rightarrow> Pending)"
  by (cases m) (auto simp: and_then_def split: outcome.splits prod.splits)

section \<open>What each step can emit\<close>

lemma resolve_invocation_trace:
  "\<forall>e\<in>set (fst (resolve_invocation pf registration gi)).
     \<not> is_trigger e \<and> \<not> is_queue_poll e \<and> \<not> is_observation e"
  by (auto simp: resolve_invocation_def Let_def fst_and_then snd_and_then call_def await_def ret_def
      split: option.splits if_splits sum.splits outcome.splits)

lemma resolve_invocation_not_Pending:
  "snd (resolve_invocation pf registration gi) \<noteq> Pending"
  by (auto simp: resolve_invocation_def Let_def fst_and_then snd_and_then call_def await_def ret_def
      split: option.splits if_splits sum.splits outcome.splits)

lemma createOrUpdateJob_trace:
  "\<forall>e\<in>set (fst (createOrUpdateJob jobName registration gi js)).
     \<not> is_trigger e \<and> \<not> is_queue_poll e \<and> \<not> is_observation e"
  by (auto simp: createOrUpdateJob_def fst_and_then snd_and_then call_def await_def
      progressLog_write_def
      split: option.splits if_splits sum.splits outcome.splits)


lemma poll_queue_trace:
  "\<forall>e\<in>set (fst (poll_queue js build fuel k)). \<not> is_trigger e \<and> \<not> is_observation e"
  by (induction fuel arbitrary: k) (auto simp: split_beta split: sum.splits)

lemma triggerJob_trace:
  "\<forall>e\<in>set (fst (triggerJob fuel js jobName ps)). \<not> is_observation e"
  using poll_queue_trace [of js _ fuel 0]
  by (auto simp: triggerJob_def fst_and_then snd_and_then call_def ret_def
      split: sum.splits if_splits outcome.splits)

lemma reports_append: "reports (xs @ ys) = reports xs @ reports ys"
  by (induction xs rule: reports.induct) auto

lemma reports_quiet: "\<forall>e\<in>set tr. \<not> is_observation e \<Longrightarrow> reports tr = []"
  by (induction tr rule: reports.induct) auto

section \<open>The executor, step by step\<close>

lemma executeJenkins_resolved:
  assumes "resolve_invocation pf registration gi = (tr0, Returned (js, jobName, ps))"
  shows "executeJenkins fuel pf registration gi =
     (tr0 @ fst (converge_and_start fuel pf registration (set_description jobName gi) js jobName ps),
      set_description jobName gi,
      snd (converge_and_start fuel pf registration (set_description jobName gi) js jobName ps))"
  using assms by (simp add: executeJenkins_def Let_def split_beta)

lemma executeJenkins_unresolved:
  assumes "resolve_invocation pf registration gi = (tr0, Threw e)"
  shows "executeJenkins fuel pf registration gi = (tr0, gi, Threw e)"
  using assms by (simp add: executeJenkins_def)


lemma await_log_end_reports: "reports (fst (await_log_end pf log)) = []"
proof -
  have "reports (map (\<lambda>ev. case ev of LogData text \<Rightarrow> ProgressWrite text []
                        | LogError err \<Rightarrow> ProgressWrite (serializeResult pf err) []) evs) = []" for evs
    by (induction evs) (auto split: log_event.splits)
  then show ?thesis by (simp add: await_log_end_def)
qed

lemma observeBuild_finishes:
  assumes "postWebhook pf ''build''
             (status_data (Some ''started'') sdmGoal (build_ref_url item) (build_id item)) team = Inr ()"
    and "log_ends (build_logStream js jobName (build_id item))"
    and "build_get js jobName (build_id item) = Inr result"
  shows "observeBuild pf js jobName sdmGoal team item =
     ([ProgressWrite block_open [],
       ProgressWrite (''Jenkins job '%s' started with build id '%s'' @ [CHR 0x27])
         [JString jobName,
          if build_id item \<noteq> 0 then JNumber (build_id item) else JString ''<unkown>''],
       ProgressWrite block_close [],
       PostWebhook ''build''
         (status_data (Some ''started'') sdmGoal (build_ref_url item) (build_id item)) team,
       LogStream jobName (build_id item)]
      @ fst (await_log_end pf (build_logStream js jobName (build_id item)))
      @ [BuildGet jobName (build_id item),
         ProgressWrite block_open [],
         ProgressWrite ''Jenkins job '%s' completed with %s''
           [JString jobName, state_arg (snd (mapOutcome (result_code result)))],
         ProgressWrite block_close [],
         PostWebhook ''build''
           (status_data (fst (mapOutcome (result_code result))) sdmGoal (build_ref_url item)
              (build_id item)) team],
      case postWebhook pf ''build''
             (status_data (fst (mapOutcome (result_code result))) sdmGoal (build_ref_url item)
                (build_id item)) team of
        Inl e \<Rightarrow> Threw e
      | Inr u \<Rightarrow>
          Returned \<lparr>result_state = snd (mapOutcome (result_code result)),
                    result_description =
                      ''Jenkins '' @ codeLine jobName @ '' '' @ template (fst (mapOutcome (result_code result))),
                    externalUrls = Some [(''Log'', result_url result)]\<rparr>)"
  using assms
  by (simp add: observeBuild_def updateBuildStatus_def io_defs await_log_end_def split_beta
      split: sum.splits)

lemma converge_and_start_observes:
  assumes "createOrUpdateJob jobName registration gi js = (tr1, Returned ())"
    and "convergeOnly registration \<noteq> Some True"
    and "triggerJob fuel js jobName ps = (tr2, Returned (Some item))"
  shows "converge_and_start fuel pf registration gi js jobName ps =
     (tr1 @ starting_block jobName ps @ tr2
        @ fst (observeBuild pf js jobName (goalEvent gi) (workspaceId gi) item),
      snd (observeBuild pf js jobName (goalEvent gi) (workspaceId gi) item))"
  using assms
  by (simp add: converge_and_start_def starting_block_def and_then_def progressLog_write_def
      split_beta)

lemma converge_and_start_unobserved:
  assumes "createOrUpdateJob jobName registration gi js = (tr1, Returned ())"
    and "convergeOnly registration \<noteq> Some True"
    and "triggerJob fuel js jobName ps = (tr2, Returned None)"
  shows "converge_and_start fuel pf registration gi js jobName ps =
     (tr1 @ starting_block jobName ps @ tr2,
      Returned \<lparr>result_state = Some success,
                result_description = ''Jenkins '' @ codeLine jobName @ '' triggered'',
                externalUrls = None\<rparr>)"
  using assms
  by (simp add: converge_and_start_def starting_block_def and_then_def progressLog_write_def
      ret_def split_beta)

section \<open>The queue poll loop\<close>

text \<open>When the polls \<open>k, ..., k + m - 1\<close> are answered by items on which the loop goes on,
  and poll \<open>k + m\<close> by an item on which it stops, the loop makes exactly \<open>m + 1\<close> polls,
  each followed by the sleep of 500 ms, provided the fuel allows that many polls.\<close>

lemma poll_queue_resolves:
  assumes "\<forall>j<m. \<exists>item. queue_item js build (k + j) = Inr item \<and> keep_polling item"
    and "queue_item js build (k + m) = Inr item"
    and "\<not> keep_polling item"
    and "m < fuel"
  shows "poll_queue js build fuel k =
           (concat (replicate (Suc m) [QueueItem build, Sleep 500]), Returned (running_build item))"
  using assms
proof (induction m arbitrary: k fuel)
  case 0
  then obtain f where "fuel = Suc f" by (cases fuel) auto
  with 0 show ?case by simp
next
  case (Suc m)
  then obtain f where f: "fuel = Suc f" "m < f" by (cases fuel) auto
  from Suc.prems(1) obtain it0 where it0: "queue_item js build k = Inr it0" "keep_polling it0"
    by (metis add.right_neutral zero_less_Suc)
  have later: "\<forall>j<m. \<exists>item. queue_item js build (Suc k + j) = Inr item \<and> keep_polling item"
  proof (intro allI impI)
    fix j assume "j < m"
    then have "Suc j < Suc m" by simp
    with Suc.prems(1) have "\<exists>item. queue_item js build (k + Suc j) = Inr item \<and> keep_polling item"
      by blast
    then show "\<exists>item. queue_item js build (Suc k + j) = Inr item \<and> keep_polling item" by simp
  qed
  have last: "queue_item js build (Suc k + m) = Inr item" using Suc.prems(2) by simp
  have "poll_queue js build f (Suc k) =
           (concat (replicate (Suc m) [QueueItem build, Sleep 500]), Returned (running_build item))"
    using Suc.IH [OF later last Suc.prems(3) f(2)] .
  with it0 f show ?case by simp
qed

text \<open>
  \<^bold>\<open>Claim C3.\<close> The trigger is acknowledged with a queue id. The polls of the queue are
  counted from 0. The polls \<open>0, ..., n - 1\<close> are answered by items that carry no executable
  build number (the loop condition holds on them), poll \<open>n\<close> is answered by an item whose
  executable carries the build number \<open>number\<close> (a number that JavaScript takes as true,
  so not 0). Then \<open>triggerJob\<close> issues exactly \<open>N = n + 1\<close> polls, each followed by the
  sleep of 500 ms, and returns \<open>{id, url}\<close> from the executable of the \<open>N\<close>-th answer.
  The fuel only has to allow \<open>N\<close> polls.
\<close>

theorem triggerJob_polls_until_running:
  assumes "job_build js jobName ps = Inr build"
    and "\<not> isNaN build"
    and "\<forall>k<n. \<exists>item. queue_item js build k = Inr item \<and> keep_polling item"
    and "queue_item js build n = Inr (Some it)"
    and "item_executable it = Some ex"
    and "exe_number ex = Some number"
    and "number \<noteq> 0"
    and "n < fuel"
  shows "triggerJob fuel js jobName ps =
           (JobBuild jobName ps # concat (replicate (Suc n) [QueueItem build, Sleep 500]),
            Returned (Some \<lparr>build_id = number, build_ref_url = exe_url ex\<rparr>))"
proof -
  have stop: "\<not> keep_polling (Some it)"
    using assms(5-7) by (simp add: keep_polling_def)
  have ref: "running_build (Some it) = Some \<lparr>build_id = number, build_ref_url = exe_url ex\<rparr>"
    using assms(5,6) by (simp add: running_build_def)
  have "poll_queue js build fuel 0 =
          (concat (replicate (Suc n) [QueueItem build, Sleep 500]), Returned (running_build (Some it)))"
    by (rule poll_queue_resolves) (use assms(3,4,8) stop in simp_all)
  with ref assms(1,2) show ?thesis
    by (simp add: triggerJob_def and_then_def call_def)
qed

theorem triggerJob_polls_until_running_witness:
  "queue_item run_jenkins (AckNumber 42) 2 =
     Inr (Some \<lparr>item_executable = Some \<lparr>exe_number = Some 7, exe_url = ''http://ci/job/app/7/''\<rparr>\<rparr>)
   \<and> triggerJob 3 run_jenkins ''app'' None =
     (JobBuild ''app'' None # concat (replicate 3 [QueueItem (AckNumber 42), Sleep 500]),
      Returned (Some \<lparr>build_id = 7, build_ref_url = ''http://ci/job/app/7/''\<rparr>))"
  using triggerJob_polls_until_running [of run_jenkins "''app''" None "AckNumber 42" 2
      "\<lparr>item_executable = Some \<lparr>exe_number = Some 7, exe_url = ''http://ci/job/app/7/''\<rparr>\<rparr>"
      "\<lparr>exe_number = Some 7, exe_url = ''http://ci/job/app/7/''\<rparr>" 7 3]
  by (simp add: run_jenkins_def keep_polling_def numeral_3_eq_3)

section \<open>Convergence only\<close>





section \<open>An invalid acknowledgment of the trigger\<close>

text \<open>
  \<^bold>\<open>Claim C2.\<close> The execution has resolved its invocation and reconciled the job,
  the registration does not ask for convergence only, and the trigger call is answered by an
  acknowledgment that \<open>isNaN\<close> rejects. Then \<open>triggerJob\<close> returns \<open>undefined\<close> after the
  trigger call alone, for every fuel; the execution returns the success state with the
  description \<open>Jenkins <job> triggered\<close>, the job name rendered by \<open>codeLine\<close>; and its
  trace holds no queue poll, no log stream, no fetch of a build result and no status
  report.
\<close>

theorem invalid_acknowledgment_is_triggered:
  assumes "resolve_invocation pf registration gi = (tr0, Returned (js, jobName, ps))"
    and "createOrUpdateJob jobName registration (set_description jobName gi) js = (tr1, Returned ())"
    and "convergeOnly registration \<noteq> Some True"
    and "job_build js jobName ps = Inr build"
    and "isNaN build"
  shows "triggerJob fuel js jobName ps = ([JobBuild jobName ps], Returned None)
     \<and> executeJenkins fuel pf registration gi =
         (tr0 @ tr1 @ starting_block jobName ps @ [JobBuild jobName ps],
          set_description jobName gi,
          Returned \<lparr>result_state = Some success,
                    result_description = ''Jenkins '' @ codeLine jobName @ '' triggered'',
                    externalUrls = None\<rparr>)
     \<and> (\<forall>e\<in>set (fst (executeJenkins fuel pf registration gi)).
           \<not> is_queue_poll e \<and> \<not> is_observation e)"
proof -
  have trig: "triggerJob fuel js jobName ps = ([JobBuild jobName ps], Returned None)"
    using assms(4,5) by (simp add: triggerJob_def io_defs)
  have exec: "executeJenkins fuel pf registration gi =
         (tr0 @ tr1 @ starting_block jobName ps @ [JobBuild jobName ps],
          set_description jobName gi,
          Returned \<lparr>result_state = Some success,
                    result_description = ''Jenkins '' @ codeLine jobName @ '' triggered'',
                    externalUrls = None\<rparr>)"
    by (simp add: executeJenkins_resolved [OF assms(1)]
        converge_and_start_unobserved [OF assms(2,3) trig])
  have tr0: "\<forall>e\<in>set tr0. \<not> is_queue_poll e \<and> \<not> is_observation e"
    using resolve_invocation_trace [of pf registration gi] assms(1) by auto
  have tr1: "\<forall>e\<in>set tr1. \<not> is_queue_poll e \<and> \<not> is_observation e"
    using createOrUpdateJob_trace [of jobName registration "set_description jobName gi" js] assms(2)
    by auto
  from trig exec tr0 tr1 show ?thesis
    by (auto simp: starting_block_def)
qed

theorem invalid_acknowledgment_is_triggered_witness:
  "isNaN AckNaN
   \<and> snd (snd (executeJenkins 0 declined_platform run_registration run_invocation)) =
       Returned \<lparr>result_state = Some success,
                 result_description = ''Jenkins `app` triggered'',
                 externalUrls = None\<rparr>
   \<and> list_all (\<lambda>e. \<not> is_queue_poll e \<and> \<not> is_observation e)
       (fst (executeJenkins 0 declined_platform run_registration run_invocation))"
proof -
  let ?js = "run_jenkins\<lparr>job_build := (\<lambda>jobName ps. Inr AckNaN)\<rparr>"
  let ?conn = "\<lparr>conn_url = ''http://ci'', conn_username = ''admin'',
                conn_password = ''123456''\<rparr>"
  have h1: "resolve_invocation declined_platform run_registration run_invocation =
              ([NewClient ?conn], Returned (?js, ''app'', None))"
    by (simp add: exec_defs io_defs run_defs declined_platform_def)
  have h2: "createOrUpdateJob ''app'' run_registration (set_description ''app'' run_invocation) ?js =
              ([ProgressWrite block_open [],
                ProgressWrite ''Not updating definition of Jenkins job '%s' as no definition was provided.''
                  [JString ''app''],
                ProgressWrite block_close []], Returned ())"
    by (simp add: exec_defs io_defs run_defs)
  have h3: "convergeOnly run_registration \<noteq> Some True"
    by (simp add: run_defs)
  have h4: "job_build ?js ''app'' None = Inr AckNaN"
    by simp
  have h5: "isNaN AckNaN"
    by simp
  from invalid_acknowledgment_is_triggered [OF h1 h2 h3 h4 h5, of 0] h5 show ?thesis
    by (simp add: list_all_iff codeLine_def)
qed

section \<open>An observed build\<close>

lemma set_description_frame:
  "workspaceId (set_description jobName gi) = workspaceId gi"
  "sdm_jenkins (set_description jobName gi) = sdm_jenkins gi"
  "goalEvent (set_description jobName gi) =
     (goalEvent gi)\<lparr>description := ''Jenkins '' @ codeLine jobName\<rparr>"
  by (simp_all add: set_description_def)

lemma executeJenkins_observes:
  assumes "resolve_invocation pf registration gi = (tr0, Returned (js, jobName, ps))"
    and "createOrUpdateJob jobName registration (set_description jobName gi) js = (tr1, Returned ())"
    and "convergeOnly registration \<noteq> Some True"
    and "triggerJob fuel js jobName ps = (tr2, Returned (Some item))"
  shows "executeJenkins fuel pf registration gi =
     (tr0 @ tr1 @ starting_block jobName ps @ tr2
        @ fst (observeBuild pf js jobName (goalEvent (set_description jobName gi)) (workspaceId gi) item),
      set_description jobName gi,
      snd (observeBuild pf js jobName (goalEvent (set_description jobName gi)) (workspaceId gi) item))"
  by (simp add: executeJenkins_resolved [OF assms(1)] converge_and_start_observes [OF assms(2-4)]
      set_description_frame(1))

lemma observed_reports:
  assumes "resolve_invocation pf registration gi = (tr0, Returned (js, jobName, ps))"
    and "createOrUpdateJob jobName registration (set_description jobName gi) js = (tr1, Returned ())"
    and "convergeOnly registration \<noteq> Some True"
    and "triggerJob fuel js jobName ps = (tr2, Returned (Some item))"
    and "postWebhook pf ''build''
           (status_data (Some ''started'') (goalEvent (set_description jobName gi))
              (build_ref_url item) (build_id item)) (workspaceId gi) = Inr ()"
    and "log_ends (build_logStream js jobName (build_id item))"
    and "build_get js jobName (build_id item) = Inr result"
  shows "reports (fst (executeJenkins fuel pf registration gi)) =
     [status_data (Some ''started'') (goalEvent (set_description jobName gi))
        (build_ref_url item) (build_id item),
      status_data (fst (mapOutcome (result_code result))) (goalEvent (set_description jobName gi))
        (build_ref_url item) (build_id item)]"
proof -
  have "reports tr0 = []"
    using resolve_invocation_trace [of pf registration gi] assms(1) by (intro reports_quiet) auto
  moreover have "reports tr1 = []"
    using createOrUpdateJob_trace [of jobName registration "set_description jobName gi" js] assms(2)
    by (intro reports_quiet) auto
  moreover have "reports tr2 = []"
    using triggerJob_trace [of fuel js jobName ps] assms(4) by (intro reports_quiet) auto
  ultimately show ?thesis
    by (simp add: executeJenkins_observes [OF assms(1-4)] observeBuild_finishes [OF assms(5-7)]
        reports_append await_log_end_reports starting_block_def)
qed


section \<open>The complete run, step by step\<close>

lemma run_resolves:
  "resolve_invocation run_platform run_registration run_invocation =
     ([NewClient \<lparr>conn_url = ''http://ci'', conn_username = ''admin'',
                   conn_password = ''123456''\<rparr>],
      Returned (run_jenkins, ''app'', None))"
  by (simp add: resolve_invocation_def merged_server_def merge_def template_def getJobName_def
      getParameters_def io_defs run_platform_def run_registration_def run_invocation_def)

lemma run_reconciles:
  "createOrUpdateJob ''app'' run_registration (set_description ''app'' run_invocation) run_jenkins =
     ([ProgressWrite block_open [],
       ProgressWrite ''Not updating definition of Jenkins job '%s' as no definition was provided.''
         [JString ''app''],
       ProgressWrite block_close []], Returned ())"
  by (simp add: createOrUpdateJob_def definition_provided_def io_defs run_registration_def)

lemma run_starts: "convergeOnly run_registration \<noteq> Some True"
  by (simp add: run_registration_def)

lemma run_triggers:
  "triggerJob 3 run_jenkins ''app'' None =
     ([JobBuild ''app'' None, QueueItem (AckNumber 42), Sleep 500, QueueItem (AckNumber 42),
       Sleep 500, QueueItem (AckNumber 42), Sleep 500],
      Returned (Some \<lparr>build_id = 7, build_ref_url = ''http://ci/job/app/7/''\<rparr>))"
  by (simp add: triggerJob_def io_defs run_jenkins_def keep_polling_def running_build_def
      numeral_3_eq_3)

lemma run_reports_started:
  "postWebhook run_platform ''build'' d team = Inr ()"
  by (simp add: run_platform_def)

lemma run_log_ends: "log_ends (build_logStream run_jenkins jobName n)"
  by (simp add: run_jenkins_def)

lemma run_result:
  "build_get run_jenkins ''app'' 7 =
     Inr \<lparr>result_code = Some ''SUCCESS'', result_url = ''http://ci/job/app/7/''\<rparr>"
  by (simp add: run_jenkins_def)

lemma unstable_resolves:
  "resolve_invocation unstable_platform run_registration run_invocation =
     ([NewClient \<lparr>conn_url = ''http://ci'', conn_username = ''admin'',
                   conn_password = ''123456''\<rparr>],
      Returned (unstable_jenkins, ''app'', None))"
  by (simp add: resolve_invocation_def merged_server_def merge_def template_def getJobName_def
      getParameters_def io_defs run_platform_def run_registration_def run_invocation_def
      unstable_platform_def)

lemma unstable_reconciles:
  "createOrUpdateJob ''app'' run_registration (set_description ''app'' run_invocation) unstable_jenkins =
     ([ProgressWrite block_open [],
       ProgressWrite ''Not updating definition of Jenkins job '%s' as no definition was provided.''
         [JString ''app''],
       ProgressWrite block_close []], Returned ())"
  by (simp add: createOrUpdateJob_def definition_provided_def io_defs run_registration_def)

lemma unstable_triggers:
  "triggerJob 3 unstable_jenkins ''app'' None =
     ([JobBuild ''app'' None, QueueItem (AckNumber 42), Sleep 500, QueueItem (AckNumber 42),
       Sleep 500, QueueItem (AckNumber 42), Sleep 500],
      Returned (Some \<lparr>build_id = 7, build_ref_url = ''http://ci/job/app/7/''\<rparr>))"
  by (simp add: triggerJob_def io_defs run_jenkins_def unstable_jenkins_def keep_polling_def
      running_build_def numeral_3_eq_3)

lemma unstable_reports: "postWebhook unstable_platform ''build'' d team = Inr ()"
  by (simp add: unstable_platform_def run_platform_def)


section \<open>Outcome mapping\<close>

text \<open>
  \<^bold>\<open>Claim C1.\<close> The execution has resolved its invocation, reconciled the job,
  triggered it and correlated a build; the report of the start is accepted, the log stream
  ends, the result \<open>result\<close> of the build is fetched, and the terminal report is accepted.
  Then the execution returns, and for the result code \<open>SUCCESS\<close> the status reported is
  \<open>passed\<close> and the goal state \<open>success\<close>; for \<open>ABORTED\<close> they are \<open>canceled\<close> and
  \<open>stopped\<close>; for \<open>FAILURE\<close> they are \<open>failed\<close> and \<open>failure\<close>; for every other result
  code, a \<open>null\<close> result included, the goal state returned is not \<open>success\<close>.
\<close>

theorem outcome_mapping:
  assumes "resolve_invocation pf registration gi = (tr0, Returned (js, jobName, ps))"
    and "createOrUpdateJob jobName registration (set_description jobName gi) js = (tr1, Returned ())"
    and "convergeOnly registration \<noteq> Some True"
    and "triggerJob fuel js jobName ps = (tr2, Returned (Some item))"
    and "postWebhook pf ''build''
           (status_data (Some ''started'') (goalEvent (set_description jobName gi))
              (build_ref_url item) (build_id item)) (workspaceId gi) = Inr ()"
    and "log_ends (build_logStream js jobName (build_id item))"
    and "build_get js jobName (build_id item) = Inr result"
    and "postWebhook pf ''build''
           (status_data (fst (mapOutcome (result_code result))) (goalEvent (set_description jobName gi))
              (build_ref_url item) (build_id item)) (workspaceId gi) = Inr ()"
  shows "\<exists>tr r. executeJenkins fuel pf registration gi = (tr, set_description jobName gi, Returned r)
     \<and> (result_code result = Some ''SUCCESS'' \<longrightarrow>
           map data_status (reports tr) = [Some ''started'', Some ''passed'']
           \<and> result_state r = Some success)
     \<and> (result_code result = Some ''ABORTED'' \<longrightarrow>
           map data_status (reports tr) = [Some ''started'', Some ''canceled'']
           \<and> result_state r = Some stopped)
     \<and> (result_code result = Some ''FAILURE'' \<longrightarrow>
           map data_status (reports tr) = [Some ''started'', Some ''failed'']
           \<and> result_state r = Some failure)
     \<and> (result_code result \<noteq> Some ''SUCCESS'' \<and> result_code result \<noteq> Some ''ABORTED''
          \<and> result_code result \<noteq> Some ''FAILURE'' \<longrightarrow>
           result_state r \<noteq> Some success)"
proof -
  let ?exec = "executeJenkins fuel pf registration gi"
  let ?code = "result_code result"
  have rep: "map data_status (reports (fst ?exec)) = [Some ''started'', fst (mapOutcome ?code)]"
    by (simp add: observed_reports [OF assms(1-7)] status_data_def)
  have out: "snd (snd ?exec) =
      Returned \<lparr>result_state = snd (mapOutcome ?code),
                result_description = ''Jenkins '' @ codeLine jobName @ '' '' @ template (fst (mapOutcome ?code)),
                externalUrls = Some [(''Log'', result_url result)]\<rparr>"
    using assms(8)
    by (simp add: executeJenkins_observes [OF assms(1-4)] observeBuild_finishes [OF assms(5-7)])
  have gi': "fst (snd ?exec) = set_description jobName gi"
    by (simp add: executeJenkins_observes [OF assms(1-4)])
  have "?exec = (fst ?exec, set_description jobName gi,
      Returned \<lparr>result_state = snd (mapOutcome ?code),
                result_description = ''Jenkins '' @ codeLine jobName @ '' '' @ template (fst (mapOutcome ?code)),
                externalUrls = Some [(''Log'', result_url result)]\<rparr>)"
    using out gi' by (metis prod.collapse)
  moreover have "?code = Some ''SUCCESS'' \<longrightarrow> mapOutcome ?code = (Some ''passed'', Some success)"
    by (simp add: mapOutcome_def)
  moreover have "?code = Some ''ABORTED'' \<longrightarrow> mapOutcome ?code = (Some ''canceled'', Some stopped)"
    by (simp add: mapOutcome_def)
  moreover have "?code = Some ''FAILURE'' \<longrightarrow> mapOutcome ?code = (Some ''failed'', Some failure)"
    by (simp add: mapOutcome_def)
  moreover have "?code \<noteq> Some ''SUCCESS'' \<and> ?code \<noteq> Some ''ABORTED'' \<and> ?code \<noteq> Some ''FAILURE''
      \<longrightarrow> mapOutcome ?code = (None, None)"
    by (simp add: mapOutcome_def)
  ultimately show ?thesis
    using rep
    by (intro exI [of _ "fst ?exec"] exI [of _ "\<lparr>result_state = snd (mapOutcome ?code),
                result_description = ''Jenkins '' @ codeLine jobName @ '' '' @ template (fst (mapOutcome ?code)),
                externalUrls = Some [(''Log'', result_url result)]\<rparr>"]) auto
qed

theorem outcome_mapping_witness:
  "(\<exists>tr r. executeJenkins 3 run_platform run_registration run_invocation =
               (tr, set_description ''app'' run_invocation, Returned r)
        \<and> map data_status (reports tr) = [Some ''started'', Some ''passed'']
        \<and> result_state r = Some success)
   \<and> (\<exists>tr r. executeJenkins 3 unstable_platform run_registration run_invocation =
               (tr, set_description ''app'' run_invocation, Returned r)
        \<and> result_state r \<noteq> Some success)"
proof -
  let ?item = "\<lparr>build_id = 7, build_ref_url = ''http://ci/job/app/7/''\<rparr>"
  let ?result = "\<lparr>result_code = Some ''SUCCESS'', result_url = ''http://ci/job/app/7/''\<rparr>"
  let ?unstable = "\<lparr>result_code = Some ''UNSTABLE'', result_url = ''http://ci/job/app/7/''\<rparr>"
  have ends: "log_ends (build_logStream run_jenkins ''app'' (build_id ?item))"
    by (rule run_log_ends)
  have res: "build_get run_jenkins ''app'' (build_id ?item) = Inr ?result"
    by (simp add: run_result)
  have ends': "log_ends (build_logStream unstable_jenkins ''app'' (build_id ?item))"
    by (simp add: unstable_jenkins_def run_jenkins_def)
  have res': "build_get unstable_jenkins ''app'' (build_id ?item) = Inr ?unstable"
    by (simp add: unstable_jenkins_def)
  from outcome_mapping [OF run_resolves run_reconciles run_starts run_triggers
      run_reports_started ends res run_reports_started]
  have passed: "\<exists>tr r. executeJenkins 3 run_platform run_registration run_invocation =
               (tr, set_description ''app'' run_invocation, Returned r)
        \<and> map data_status (reports tr) = [Some ''started'', Some ''passed'']
        \<and> result_state r = Some success"
    by auto
  from outcome_mapping [OF unstable_resolves unstable_reconciles run_starts unstable_triggers
      unstable_reports ends' res' unstable_reports]
  have "\<exists>tr r. executeJenkins 3 unstable_platform run_registration run_invocation =
               (tr, set_description ''app'' run_invocation, Returned r)
        \<and> result_state r \<noteq> Some success"
    by auto
  with passed show ?thesis by blast
qed

section \<open>The terminal report\<close>

text \<open>
  \<^bold>\<open>Claim C10.\<close> The execution has resolved its invocation, reconciled the job,
  triggered it and correlated the build \<open>item\<close>; the report of the start is accepted, the
  log stream ends and the result \<open>result\<close> of the build is fetched. Then the execution
  makes exactly two status reports, both for the build \<open>item\<close>: the first with the status
  \<open>started\<close>, the second with the very status that the \<open>switch\<close> on the result code of
  \<open>result\<close> produced; and a result that is returned carries the goal state of the same
  \<open>switch\<close> and that status in its description.
\<close>

theorem terminal_report_matches_outcome:
  assumes "resolve_invocation pf registration gi = (tr0, Returned (js, jobName, ps))"
    and "createOrUpdateJob jobName registration (set_description jobName gi) js = (tr1, Returned ())"
    and "convergeOnly registration \<noteq> Some True"
    and "triggerJob fuel js jobName ps = (tr2, Returned (Some item))"
    and "postWebhook pf ''build''
           (status_data (Some ''started'') (goalEvent (set_description jobName gi))
              (build_ref_url item) (build_id item)) (workspaceId gi) = Inr ()"
    and "log_ends (build_logStream js jobName (build_id item))"
    and "build_get js jobName (build_id item) = Inr result"
  shows "reports (fst (executeJenkins fuel pf registration gi)) =
     [status_data (Some ''started'') (goalEvent (set_description jobName gi))
        (build_ref_url item) (build_id item),
      status_data (fst (mapOutcome (result_code result))) (goalEvent (set_description jobName gi))
        (build_ref_url item) (build_id item)]
   \<and> (\<forall>r. snd (snd (executeJenkins fuel pf registration gi)) = Returned r \<longrightarrow>
          result_state r = snd (mapOutcome (result_code result))
          \<and> result_description r =
              ''Jenkins '' @ codeLine jobName @ '' '' @ template (fst (mapOutcome (result_code result))))"
proof -
  have "\<forall>r. snd (snd (executeJenkins fuel pf registration gi)) = Returned r \<longrightarrow>
          result_state r = snd (mapOutcome (result_code result))
          \<and> result_description r =
              ''Jenkins '' @ codeLine jobName @ '' '' @ template (fst (mapOutcome (result_code result)))"
    by (auto simp: executeJenkins_observes [OF assms(1-4)] observeBuild_finishes [OF assms(5-7)]
        split: sum.splits)
  with observed_reports [OF assms] show ?thesis by blast
qed

theorem terminal_report_matches_outcome_witness:
  "map data_status (reports (fst (executeJenkins 3 run_platform run_registration run_invocation))) =
     [Some ''started'', fst (mapOutcome (Some ''SUCCESS''))]
   \<and> fst (mapOutcome (Some ''SUCCESS'')) = Some ''passed''"
  using terminal_report_matches_outcome [OF run_resolves run_reconciles run_starts run_triggers
      run_reports_started, of "\<lparr>result_code = Some ''SUCCESS'', result_url = ''http://ci/job/app/7/''\<rparr>"]
  by (simp add: run_log_ends run_result status_data_def mapOutcome_def)

section \<open>Reconciliation of the job definition\<close>

text \<open>
  \<^bold>\<open>Claim C5.\<close> A registration supplies a definition when \<open>!!registration.definition\<close>
  holds: the field is a function, or a string that is not empty. For such a registration
  whose definition resolves to \<open>d\<close>, the remote calls of one run of \<open>createOrUpdateJob\<close> are
  the existence check followed by exactly one write: \<open>create\<close> when the check reports the
  job absent, \<open>config\<close> when it reports the job present, never both. When no definition is
  supplied, the run makes no remote call at all and returns.
\<close>

theorem createOrUpdateJob_one_write:
  "(definition_provided registration \<and> resolve_definition registration gi = Inr d
      \<and> job_exists js jobName = Inr False \<longrightarrow>
        filter is_remote_call (fst (createOrUpdateJob jobName registration gi js)) =
          [JobExists jobName, JobCreate jobName d])
   \<and> (definition_provided registration \<and> resolve_definition registration gi = Inr d
      \<and> job_exists js jobName = Inr True \<longrightarrow>
        filter is_remote_call (fst (createOrUpdateJob jobName registration gi js)) =
          [JobExists jobName, JobConfig jobName d])
   \<and> (\<not> definition_provided registration \<longrightarrow>
        filter is_remote_call (fst (createOrUpdateJob jobName registration gi js)) = []
        \<and> snd (createOrUpdateJob jobName registration gi js) = Returned ())"
  by (auto simp: createOrUpdateJob_def fst_and_then snd_and_then call_def await_def
      progressLog_write_def split: sum.splits)

theorem createOrUpdateJob_one_write_witness:
  "definition_provided defined_registration
   \<and> filter is_remote_call (fst (createOrUpdateJob ''app'' defined_registration run_invocation run_jenkins)) =
       [JobExists ''app'', JobCreate ''app'' ''<project/>'']
   \<and> filter is_remote_call (fst (createOrUpdateJob ''app'' defined_registration run_invocation existing_jenkins)) =
       [JobExists ''app'', JobConfig ''app'' ''<project/>'']
   \<and> \<not> definition_provided run_registration
   \<and> filter is_remote_call (fst (createOrUpdateJob ''app'' run_registration run_invocation run_jenkins)) = []"
proof -
  have p: "definition_provided defined_registration"
    by (simp add: definition_provided_def defined_registration_def)
  have d: "resolve_definition defined_registration run_invocation = Inr ''<project/>''"
    by (simp add: resolve_definition_def defined_registration_def)
  have absent: "job_exists run_jenkins ''app'' = Inr False"
    by (simp add: run_jenkins_def)
  have present: "job_exists existing_jenkins ''app'' = Inr True"
    by (simp add: existing_jenkins_def)
  have n: "\<not> definition_provided run_registration"
    by (simp add: definition_provided_def run_registration_def)
  from createOrUpdateJob_one_write [of defined_registration run_invocation "''<project/>''"
      run_jenkins "''app''"] p d absent
  have c: "filter is_remote_call (fst (createOrUpdateJob ''app'' defined_registration run_invocation run_jenkins)) =
       [JobExists ''app'', JobCreate ''app'' ''<project/>'']"
    by blast
  from createOrUpdateJob_one_write [of defined_registration run_invocation "''<project/>''"
      existing_jenkins "''app''"] p d present
  have u: "filter is_remote_call (fst (createOrUpdateJob ''app'' defined_registration run_invocation existing_jenkins)) =
       [JobExists ''app'', JobConfig ''app'' ''<project/>'']"
    by blast
  from createOrUpdateJob_one_write [of run_registration run_invocation "''<project/>''"
      run_jenkins "''app''"] n
  have e: "filter is_remote_call (fst (createOrUpdateJob ''app'' run_registration run_invocation run_jenkins)) = []"
    by blast
  from p c u n e show ?thesis by blast
qed

section \<open>The order of the status reports\<close>

lemma reports_member:
  "d \<in> set (reports tr) \<Longrightarrow> \<exists>hook team. PostWebhook hook d team \<in> set tr"
  by (induction tr rule: reports.induct) auto

lemma observeBuild_reports:
  "\<exists>st. reports (fst (observeBuild pf js jobName sdmGoal team item)) =
          [status_data (Some ''started'') sdmGoal (build_ref_url item) (build_id item)]
      \<or> reports (fst (observeBuild pf js jobName sdmGoal team item)) =
          [status_data (Some ''started'') sdmGoal (build_ref_url item) (build_id item),
           status_data st sdmGoal (build_ref_url item) (build_id item)]"
  by (auto simp: observeBuild_def updateBuildStatus_def fst_and_then snd_and_then call_def
      progressLog_write_def ret_def reports_append await_log_end_reports split_beta Let_def
      split: sum.splits outcome.splits)


lemma converge_and_start_reports:
  "report_shape (reports (fst (converge_and_start fuel pf registration gi js jobName ps)))"
proof -
  have c: "reports (fst (createOrUpdateJob jobName registration gi js)) = []"
    using createOrUpdateJob_trace [of jobName registration gi js] by (intro reports_quiet) auto
  have t: "reports (fst (triggerJob fuel js jobName ps)) = []"
    using triggerJob_trace [of fuel js jobName ps] by (intro reports_quiet) auto
  have o: "report_shape (reports (fst (observeBuild pf js jobName (goalEvent gi) (workspaceId gi) it)))" for it
    using observeBuild_reports [of pf js jobName "goalEvent gi" "workspaceId gi" it]
    unfolding report_shape_def by blast
  show ?thesis
    using o
    by (auto simp: converge_and_start_def fst_and_then snd_and_then progressLog_write_def ret_def
        reports_append c t report_shape_def [of "[]"]
        split: outcome.splits option.splits)
qed

lemma executeJenkins_reports:
  "report_shape (reports (fst (executeJenkins fuel pf registration gi)))"
proof -
  have r: "reports (fst (resolve_invocation pf registration gi)) = []"
    using resolve_invocation_trace [of pf registration gi] by (intro reports_quiet) auto
  show ?thesis
    using r converge_and_start_reports
    by (auto simp: executeJenkins_def reports_append split_beta Let_def report_shape_def [of "[]"]
        split: prod.splits outcome.splits)
qed

lemma run_team: "workspaceId run_invocation = ''T29E48P34''"
  by (simp add: run_invocation_def)

lemma run_trace_last:
  "last (fst (executeJenkins 3 run_platform run_registration run_invocation)) =
     PostWebhook ''build''
       (status_data (Some ''passed'') (goalEvent (set_description ''app'' run_invocation))
          ''http://ci/job/app/7/'' 7) ''T29E48P34''"
proof -
  let ?item = "\<lparr>build_id = 7, build_ref_url = ''http://ci/job/app/7/''\<rparr>"
  let ?result = "\<lparr>result_code = Some ''SUCCESS'', result_url = ''http://ci/job/app/7/''\<rparr>"
  have ends: "log_ends (build_logStream run_jenkins ''app'' (build_id ?item))"
    by (rule run_log_ends)
  have res: "build_get run_jenkins ''app'' (build_id ?item) = Inr ?result"
    by (simp add: run_result)
  show ?thesis
    by (simp add: executeJenkins_observes [OF run_resolves run_reconciles run_starts run_triggers]
        observeBuild_finishes [OF run_reports_started ends res] mapOutcome_def run_team)
qed

text \<open>
  \<^bold>\<open>Claim C6.\<close> In the trace of any execution, whatever the fuel, the answers of the
  world and the outcome (returned, thrown or still waiting), every report whose status is
  \<open>passed\<close>, \<open>failed\<close>, \<open>canceled\<close> or \<open>error\<close> comes after a report with the status
  \<open>started\<close> for the same build number and build url.
\<close>

theorem terminal_report_follows_started:
  assumes "executeJenkins fuel pf registration gi = (tr, gi', out)"
    and "tr = pre @ PostWebhook hook d team # post"
    and "terminal_status (data_status d)"
  shows "\<exists>hook' d' team'.
           PostWebhook hook' d' team' \<in> set pre
           \<and> data_status d' = Some ''started''
           \<and> data_number d' = data_number d
           \<and> data_build_url d' = data_build_url d"
proof -
  have shape: "report_shape (reports tr)"
    using executeJenkins_reports [of fuel pf registration gi] assms(1) by simp
  have split: "reports tr = reports pre @ d # reports post"
    using assms(2) by (simp add: reports_append)
  have not_started: "data_status d \<noteq> Some ''started''"
    using assms(3) by (auto simp: terminal_status_def)
  from shape split not_started
  obtain sdmGoal url n st where
    pre: "reports pre = [status_data (Some ''started'') sdmGoal url n]"
    and d: "d = status_data st sdmGoal url n"
    unfolding report_shape_def
    by (auto simp: append_eq_Cons_conv Cons_eq_append_conv status_data_def)
  from pre have "status_data (Some ''started'') sdmGoal url n \<in> set (reports pre)" by simp
  then obtain hook' team' where
    "PostWebhook hook' (status_data (Some ''started'') sdmGoal url n) team' \<in> set pre"
    using reports_member by blast
  with d show ?thesis
    by (intro exI [of _ hook'] exI [of _ "status_data (Some ''started'') sdmGoal url n"]
        exI [of _ team']) (simp add: status_data_def)
qed


theorem terminal_report_follows_started_witness:
  "terminal_status (Some ''passed'')
   \<and> (\<exists>pre d. fst (executeJenkins 3 run_platform run_registration run_invocation) =
                 pre @ [PostWebhook ''build'' d ''T29E48P34'']
        \<and> data_status d = Some ''passed''
        \<and> (\<exists>hook' d' team'.
              PostWebhook hook' d' team' \<in> set pre
              \<and> data_status d' = Some ''started''
              \<and> data_number d' = data_number d
              \<and> data_build_url d' = data_build_url d))"
proof -
  let ?d = "status_data (Some ''passed'') (goalEvent (set_description ''app'' run_invocation))
              ''http://ci/job/app/7/'' 7"
  obtain tr gi' out where
    exec: "executeJenkins 3 run_platform run_registration run_invocation = (tr, gi', out)"
    by (cases "executeJenkins 3 run_platform run_registration run_invocation") auto
  have last: "last tr = PostWebhook ''build'' ?d ''T29E48P34''"
    using run_trace_last exec by simp
  have "tr \<noteq> []"
    using exec
    by (auto simp: executeJenkins_resolved [OF run_resolves])
  then have tr: "tr = butlast tr @ PostWebhook ''build'' ?d ''T29E48P34'' # []"
    using last by (metis append_butlast_last_id)
  have st: "data_status ?d = Some ''passed''"
    by (simp add: status_data_def)
  have terminal: "terminal_status (data_status ?d)"
    by (simp add: st terminal_status_def)
  from terminal_report_follows_started [OF exec tr terminal]
  have started: "\<exists>hook' d' team'.
              PostWebhook hook' d' team' \<in> set (butlast tr)
              \<and> data_status d' = Some ''started''
              \<and> data_number d' = data_number ?d
              \<and> data_build_url d' = data_build_url ?d" .
  have "fst (executeJenkins 3 run_platform run_registration run_invocation) =
          butlast tr @ [PostWebhook ''build'' ?d ''T29E48P34'']"
    using exec tr by simp
  with st started have "\<exists>pre d. fst (executeJenkins 3 run_platform run_registration run_invocation) =
                 pre @ [PostWebhook ''build'' d ''T29E48P34'']
        \<and> data_status d = Some ''passed''
        \<and> (\<exists>hook' d' team'.
              PostWebhook hook' d' team' \<in> set pre
              \<and> data_status d' = Some ''started''
              \<and> data_number d' = data_number d
              \<and> data_build_url d' = data_build_url d)"
    by blast
  then show ?thesis by (simp add: terminal_status_def)
qed

section \<open>Precedence of the server configuration\<close>

text \<open>
  \<^bold>\<open>Claim C7.\<close> The documentation of the field \<open>server\<close> says that the configuration at
  \<open>sdm.jenkins\<close> is checked when the registration provides none. The executor merges the
  registration first and the configuration second, so every field that the configuration
  has replaces the one of the registration. On the complete run, with a registration that
  names the server \<open>http://registered\<close> with its own user and password and a configuration
  that names \<open>http://ci\<close>, the merged server is the one of the configuration and the
  client is built for it: the values of the registration are not used.
\<close>

theorem registration_server_is_overridden:
  "server registered_registration =
     Some \<lparr>server_url = Some ''http://registered'', server_user = Some ''deployer'',
           server_password = Some ''hunter2''\<rparr>
   \<and> sdm_jenkins run_invocation =
     Some \<lparr>server_url = Some ''http://ci'', server_user = Some ''admin'',
           server_password = Some ''123456''\<rparr>
   \<and> merged_server registered_registration run_invocation =
     \<lparr>server_url = Some ''http://ci'', server_user = Some ''admin'',
      server_password = Some ''123456''\<rparr>
   \<and> take 1 (fst (executeJenkins 3 run_platform registered_registration run_invocation)) =
     [NewClient \<lparr>conn_url = ''http://ci'', conn_username = ''admin'',
                  conn_password = ''123456''\<rparr>]"
  by code_simp


section \<open>Detection of the phases\<close>

text \<open>
  \<^bold>\<open>Claim C8.\<close> On the complete run the progress log receives the lines below: every
  announcement stands between the opening and the closing marker. The line that announces
  the start of the job is matched by the test of the phase \<open>queued\<close>, the line that
  announces the running build by the test of the phase \<open>started\<close>. The only test of the
  phase \<open>completed\<close> is the expression \<open>Jenkins job '%s' complated with\<close>; it matches
  neither the line that announces the completion nor the message that the line is made
  of, so the completion is never detected.
\<close>

theorem completion_announcement_is_not_detected:
  "progress_lines (fst (executeJenkins 3 run_platform run_registration run_invocation)) =
     [block_open,
      ''Not updating definition of Jenkins job 'app' as no definition was provided.'',
      block_close,
      block_open,
      ''Starting Jenkins job 'app' with parameters '{}'' @ [CHR 0x27],
      block_close,
      block_open,
      ''Jenkins job 'app' started with build id '7'' @ [CHR 0x27],
      block_close,
      ''one'',
      ''two'',
      block_open,
      ''Jenkins job 'app' completed with success'',
      block_close]
   \<and> list_ex (\<lambda>t. regexp_test t (''Starting Jenkins job 'app' with parameters '{}'' @ [CHR 0x27]))
         (tests_of_phase ''queued'')
   \<and> list_ex (\<lambda>t. regexp_test t (''Jenkins job 'app' started with build id '7'' @ [CHR 0x27]))
         (tests_of_phase ''started'')
   \<and> tests_of_phase ''completed'' = [lits ''Jenkins job '%s' complated with'']
   \<and> \<not> list_ex (\<lambda>t. regexp_test t ''Jenkins job 'app' completed with success'')
           (tests_of_phase ''completed'')
   \<and> \<not> list_ex (\<lambda>t. regexp_test t ''Jenkins job '%s' completed with %s'')
           (tests_of_phase ''completed'')"
  by code_simp


section \<open>What the executor writes to its invocation\<close>

text \<open>
  \<^bold>\<open>Claim C9\<close>, as stated, fails: on the complete run the goal event enters with the
  description \<open>Planned\<close> and leaves with the description \<open>Jenkins `app`\<close>.
\<close>

theorem description_is_overwritten:
  "description (goalEvent run_invocation) = ''Planned''
   \<and> description (goalEvent (fst (snd (executeJenkins 3 run_platform run_registration run_invocation)))) =
       ''Jenkins `app`''
   \<and> goalEvent (fst (snd (executeJenkins 3 run_platform run_registration run_invocation))) \<noteq>
       goalEvent run_invocation"
  by code_simp

text \<open>
  \<^bold>\<open>Claim C9\<close>, amended. Whatever the fuel, the world and the outcome, the executor leaves
  the workspace id, the configuration and the repository, sha and branch of the goal event
  as they were. The description of the goal event is the one field it assigns: it is
  unchanged when the resolution of the invocation throws; as soon as the job name and the
  parameters are resolved it is \<open>Jenkins\<close>, a space and \<open>codeLine\<close> of the job name, that is
  \<open>Jenkins `<job>`\<close> for a job name that is not empty and \<open>Jenkins\<close> followed by a space
  alone for the empty job name.
\<close>

theorem executeJenkins_writes_only_description:
  assumes "executeJenkins fuel pf registration gi = (tr, gi', out)"
  shows "workspaceId gi' = workspaceId gi
     \<and> sdm_jenkins gi' = sdm_jenkins gi
     \<and> repo_owner (goalEvent gi') = repo_owner (goalEvent gi)
     \<and> repo_name (goalEvent gi') = repo_name (goalEvent gi)
     \<and> sha (goalEvent gi') = sha (goalEvent gi)
     \<and> branch (goalEvent gi') = branch (goalEvent gi)
     \<and> (\<forall>e. snd (resolve_invocation pf registration gi) = Threw e \<longrightarrow>
           description (goalEvent gi') = description (goalEvent gi))
     \<and> (\<forall>js jobName ps.
           snd (resolve_invocation pf registration gi) = Returned (js, jobName, ps) \<longrightarrow>
           description (goalEvent gi') = ''Jenkins '' @ codeLine jobName
           \<and> (jobName \<noteq> [] \<longrightarrow> description (goalEvent gi') = ''Jenkins `'' @ jobName @ ''`'')
           \<and> (jobName = [] \<longrightarrow> description (goalEvent gi') = ''Jenkins ''))"
proof (cases "resolve_invocation pf registration gi")
  case (Pair tr0 res)
  show ?thesis
  proof (cases res)
    case Pending
    with Pair resolve_invocation_not_Pending [of pf registration gi] show ?thesis by simp
  next
    case (Threw e)
    with Pair assms show ?thesis
      by (auto simp: executeJenkins_unresolved)
  next
    case (Returned x)
    obtain js jobName ps where "x = (js, jobName, ps)" by (cases x) auto
    with Pair Returned
    have res: "resolve_invocation pf registration gi = (tr0, Returned (js, jobName, ps))"
      by simp
    from assms have "gi' = set_description jobName gi"
      by (auto simp: executeJenkins_resolved [OF res])
    with res show ?thesis
      by (simp add: set_description_def codeLine_def)
  qed
qed

theorem executeJenkins_writes_only_description_witness:
  "snd (resolve_invocation run_platform run_registration run_invocation) =
     Returned (run_jenkins, ''app'', None)
   \<and> fst (snd (executeJenkins 3 run_platform run_registration run_invocation)) =
     run_invocation\<lparr>goalEvent := (goalEvent run_invocation)\<lparr>description := ''Jenkins `app`''\<rparr>\<rparr>
   \<and> snd (resolve_invocation run_platform empty_job_registration run_invocation) =
     Returned (run_jenkins, [], None)
   \<and> fst (snd (executeJenkins 3 run_platform empty_job_registration run_invocation)) =
     run_invocation\<lparr>goalEvent := (goalEvent run_invocation)\<lparr>description := ''Jenkins ''\<rparr>\<rparr>"
proof -
  obtain tr gi' out where
    exec: "executeJenkins 3 run_platform run_registration run_invocation = (tr, gi', out)"
    by (cases "executeJenkins 3 run_platform run_registration run_invocation") auto
  have res: "snd (resolve_invocation run_platform run_registration run_invocation) =
     Returned (run_jenkins, ''app'', None)"
    by (simp add: run_resolves)
  from executeJenkins_writes_only_description [OF exec] res
  have "workspaceId gi' = workspaceId run_invocation
     \<and> sdm_jenkins gi' = sdm_jenkins run_invocation
     \<and> repo_owner (goalEvent gi') = repo_owner (goalEvent run_invocation)
     \<and> repo_name (goalEvent gi') = repo_name (goalEvent run_invocation)
     \<and> sha (goalEvent gi') = sha (goalEvent run_invocation)
     \<and> branch (goalEvent gi') = branch (goalEvent run_invocation)
     \<and> description (goalEvent gi') = ''Jenkins `'' @ ''app'' @ ''`''"
    by (simp add: codeLine_def)
  then have named: "gi' =
     run_invocation\<lparr>goalEvent := (goalEvent run_invocation)\<lparr>description := ''Jenkins `app`''\<rparr>\<rparr>"
    by (cases gi', cases "goalEvent gi'") (simp add: run_invocation_def)
  obtain tr2 gi2 out2 where
    exec2: "executeJenkins 3 run_platform empty_job_registration run_invocation = (tr2, gi2, out2)"
    by (cases "executeJenkins 3 run_platform empty_job_registration run_invocation") auto
  have res2: "snd (resolve_invocation run_platform empty_job_registration run_invocation) =
     Returned (run_jenkins, [], None)"
    by (simp add: resolve_invocation_def merged_server_def merge_def template_def getJobName_def
        getParameters_def io_defs run_platform_def run_registration_def run_invocation_def
        empty_job_registration_def)
  from executeJenkins_writes_only_description [OF exec2] res2
  have "workspaceId gi2 = workspaceId run_invocation
     \<and> sdm_jenkins gi2 = sdm_jenkins run_invocation
     \<and> repo_owner (goalEvent gi2) = repo_owner (goalEvent run_invocation)
     \<and> repo_name (goalEvent gi2) = repo_name (goalEvent run_invocation)
     \<and> sha (goalEvent gi2) = sha (goalEvent run_invocation)
     \<and> branch (goalEvent gi2) = branch (goalEvent run_invocation)
     \<and> description (goalEvent gi2) = ''Jenkins ''"
    by (simp add: codeLine_def)
  then have unnamed: "gi2 =
     run_invocation\<lparr>goalEvent := (goalEvent run_invocation)\<lparr>description := ''Jenkins ''\<rparr>\<rparr>"
    by (cases gi2, cases "goalEvent gi2") (simp add: run_invocation_def)
  from exec res named exec2 res2 unnamed show ?thesis by simp
qed

end
